theory Spec2Isabelle
  imports Main "HOL-Library.Word"
begin

section \<open>JavaScript built-ins used by the route handlers\<close>

text \<open>
  Exceptions the handlers can meet. A failed ObjectId cast is Mongoose's \<open>CastError\<close>,
  whose \<open>kind\<close> property is the string \<open>ObjectId\<close>; the others carry no \<open>kind\<close>.
  \<open>LibraryError\<close> stands for an error handed back by a library or by the document store.
\<close>

datatype exn = CastError | TypeError | ReferenceError | SyntaxError | LibraryError

fun kind :: "exn \<Rightarrow> string option" where
  "kind CastError = Some ''ObjectId''"
| "kind TypeError = None"
| "kind ReferenceError = None"
| "kind SyntaxError = None"
| "kind LibraryError = None"

text \<open>\<open>String.prototype.indexOf\<close>: the first position at which the search string occurs, or -1.\<close>

fun startsWith :: "string \<Rightarrow> string \<Rightarrow> bool" where
  "startsWith s [] = True"
| "startsWith [] (d # ds) = False"
| "startsWith (c # cs) (d # ds) = (c = d \<and> startsWith cs ds)"

fun String_indexOf_from :: "nat \<Rightarrow> string \<Rightarrow> string \<Rightarrow> int" where
  "String_indexOf_from i [] s = (if s = [] then int i else - 1)"
| "String_indexOf_from i (c # cs) s =
     (if startsWith (c # cs) s then int i else String_indexOf_from (Suc i) cs s)"

definition String_indexOf :: "string \<Rightarrow> string \<Rightarrow> int" where
  "String_indexOf str s = String_indexOf_from 0 str s"

text \<open>\<open>Array.prototype.indexOf\<close>: the first position holding a strictly equal element, or -1.\<close>

fun Array_indexOf_from :: "nat \<Rightarrow> 'a list \<Rightarrow> 'a \<Rightarrow> int" where
  "Array_indexOf_from i [] v = - 1"
| "Array_indexOf_from i (x # xs) v = (if x = v then int i else Array_indexOf_from (Suc i) xs v)"

definition Array_indexOf :: "'a list \<Rightarrow> 'a \<Rightarrow> int" where
  "Array_indexOf xs v = Array_indexOf_from 0 xs v"

text \<open>
  \<open>Array.prototype.splice(start, deleteCount)\<close>, as the array it leaves behind: a negative
  start counts from the end, the start is clamped to the array and the delete count to
  what remains after the start.
\<close>

definition splice :: "'a list \<Rightarrow> int \<Rightarrow> int \<Rightarrow> 'a list" where
  "splice xs start deleteCount =
     (let len = int (length xs);
          actualStart = (if start < 0 then max (len + start) 0 else min start len);
          actualDeleteCount = min (max deleteCount 0) (len - actualStart)
      in take (nat actualStart) xs @ drop (nat (actualStart + actualDeleteCount)) xs)"

text \<open>
  The coercion \<open>splice\<close> applies to its first argument when that argument is an array of
  numbers: the array is joined with commas and the string is read as a number. The empty
  string reads as 0, a single element as itself, and anything with a comma in it as NaN,
  which the integer conversion turns into 0.
\<close>

fun Array_ToIntegerOrInfinity :: "int list \<Rightarrow> int" where
  "Array_ToIntegerOrInfinity [] = 0"
| "Array_ToIntegerOrInfinity [n] = n"
| "Array_ToIntegerOrInfinity (n # m # ns) = 0"

text \<open>
  The strings of a request body are JavaScript strings: sequences of 16-bit code units.
  \<open>js\<close> reads an ASCII literal as such a string.
\<close>

type_synonym jstring = "16 word list"

definition js :: "string \<Rightarrow> jstring" where
  "js s = map of_char s"

text \<open>\<open>String.prototype.split(",")\<close>: the pieces between the commas (code unit 0x2C).\<close>

fun split_comma_acc :: "jstring \<Rightarrow> jstring \<Rightarrow> jstring list" where
  "split_comma_acc acc [] = [rev acc]"
| "split_comma_acc acc (c # cs) =
     (if c = 0x2C then rev acc # split_comma_acc [] cs else split_comma_acc (c # acc) cs)"

definition split_comma :: "jstring \<Rightarrow> jstring list" where
  "split_comma s = split_comma_acc [] s"

text \<open>
  \<open>String.prototype.trim\<close> strips the white space and line terminators of the language
  from both ends: TAB, LF, VT, FF, CR, SPACE, NO-BREAK SPACE, the other space separators
  (U+1680, U+2000 to U+200A, U+202F, U+205F, U+3000), LINE and PARAGRAPH SEPARATOR and
  the byte order mark U+FEFF.
\<close>

definition is_space :: "16 word \<Rightarrow> bool" where
  "is_space c =
     (c \<in> set [0x0009, 0x000A, 0x000B, 0x000C, 0x000D, 0x0020, 0x00A0, 0x1680,
               0x2000, 0x2001, 0x2002, 0x2003, 0x2004, 0x2005, 0x2006, 0x2007,
               0x2008, 0x2009, 0x200A, 0x2028, 0x2029, 0x202F, 0x205F, 0x3000, 0xFEFF])"

definition trim :: "jstring \<Rightarrow> jstring" where
  "trim s = rev (dropWhile is_space (rev (dropWhile is_space s)))"

text \<open>
  A value of a JSON request body is a string or a value of another kind (number,
  boolean, null, array, object), which the model keeps opaque. What the language and the
  libraries make of such a value are parameters: its truthiness, the verdict of the
  validator's \<open>notEmpty\<close>, and Mongoose's cast to a path of type String (\<open>None\<close>: the
  cast raises \<open>CastError\<close>).
\<close>

datatype 'o jvalue = JString jstring | JOther 'o

record 'o nonstrings =
  ToBoolean_other :: "'o \<Rightarrow> bool"
  notEmpty_other :: "'o \<Rightarrow> bool"
  castString_other :: "'o \<Rightarrow> jstring option"

text \<open>Truthiness of a request-body field (\<open>None\<close>: the field is missing, \<open>undefined\<close>).\<close>

fun truthy :: "'o nonstrings \<Rightarrow> 'o jvalue option \<Rightarrow> bool" where
  "truthy J None = False"
| "truthy J (Some (JString s)) = (s \<noteq> [])"
| "truthy J (Some (JOther v)) = ToBoolean_other J v"

text \<open>The validator \<open>notEmpty\<close>: a missing field is validated as the empty string.\<close>

fun notEmpty :: "'o nonstrings \<Rightarrow> 'o jvalue option \<Rightarrow> bool" where
  "notEmpty J None = False"
| "notEmpty J (Some (JString s)) = (s \<noteq> [])"
| "notEmpty J (Some (JOther v)) = notEmpty_other J v"

fun castString :: "'o nonstrings \<Rightarrow> 'o jvalue \<Rightarrow> jstring option" where
  "castString J (JString s) = Some s"
| "castString J (JOther v) = castString_other J v"

text \<open>The pattern \<open>/^[0-9a-fA-F]{24}$/\<close> of the post-delete route.\<close>

definition is_hex :: "char \<Rightarrow> bool" where
  "is_hex c = (c \<in> set ''0123456789abcdefABCDEF'')"

definition match_hex24 :: "string \<Rightarrow> bool" where
  "match_hex24 s = (length s = 24 \<and> list_all is_hex s)"

section \<open>Documents\<close>

text \<open>
  Modelled from the spec: the schemas \<^verbatim>\<open>modals/User\<close>, \<^verbatim>\<open>modals/Profile\<close> and
  \<^verbatim>\<open>modals/Post\<close> are not part of the sources at hand; the records carry the fields of
  the spec's data model that the handlers read and write. A reference to a user is kept
  as the string its \<open>toString()\<close> yields, a sub-document identifier as the string its
  \<open>id\<close> getter yields. Time stamps are left out.
\<close>

record user =
  user_id :: string
  user_name :: jstring
  user_email :: jstring
  user_avatar :: string
  user_password :: string

record like =
  like_user :: string

record comment =
  comment_id :: string
  comment_user :: string
  comment_text :: string
  comment_name :: string
  comment_avatar :: string

record post =
  post_user :: string
  post_text :: string
  post_name :: string
  post_avatar :: string
  likes :: "like list"
  comments :: "comment list"

record experience =
  exp_id :: string
  exp_title :: string
  exp_company :: string

record education =
  edu_id :: string
  edu_school :: string
  edu_degree :: string
  edu_fieldofstudy :: string

record social =
  youtube :: "jstring option"
  twitter :: "jstring option"
  facebook :: "jstring option"
  linkedin :: "jstring option"
  instagram :: "jstring option"

record profile =
  profile_user :: string
  company :: "jstring option"
  website :: "jstring option"
  location :: "jstring option"
  bio :: "jstring option"
  status :: "jstring option"
  githubusername :: "jstring option"
  skills :: "jstring list"
  social :: social
  experience :: "experience list"
  education :: "education list"

section \<open>Responses and handler outcomes\<close>

datatype body =
    Msg string
  | Errors "string list"
  | Token string
  | Likes "like list"
  | Comments "comment list"
  | ProfileDoc profile
  | Parsed string
  | Text string

record response =
  code :: nat
  payload :: body

datatype log_entry = Err_message exn | Err_object string | Log_string string | Log_comment "comment option"

text \<open>
  What a handler run leaves behind: the response it sent (if any), the exception that
  escaped it (if any) and what it wrote to the console.
\<close>

record outcome =
  sent :: "response option"
  thrown :: "exn option"
  console :: "log_entry list"

definition respond :: "nat \<Rightarrow> body \<Rightarrow> outcome" where
  "respond c b = \<lparr>sent = Some \<lparr>code = c, payload = b\<rparr>, thrown = None, console = []\<rparr>"

definition logging :: "log_entry \<Rightarrow> outcome \<Rightarrow> outcome" where
  "logging l out = out\<lparr>console := l # console out\<rparr>"

definition uncaught :: "exn \<Rightarrow> outcome" where
  "uncaught e = \<lparr>sent = None, thrown = Some e, console = []\<rparr>"

text \<open>
  Identifier resolution inside a catch block: the catch parameter, the handler's
  parameters, the module's own bindings and the globals the handlers use. Reading a
  name that is none of these raises \<open>ReferenceError\<close>.
\<close>

definition handler_scope :: "string list \<Rightarrow> string \<Rightarrow> string list" where
  "handler_scope module_bindings catch_param =
     catch_param # ''req'' # ''res'' # module_bindings @ [''console'', ''JSON'', ''require'', ''module'']"

text \<open>
  \<^verbatim>\<open>catch (p) { console.error(v.message); res.status(500).send("Server Error"); }\<close>
  where \<open>p\<close> is the catch parameter and \<open>v\<close> the name the block reads. When \<open>v\<close> is another
  binding in scope, its \<open>message\<close> is not the exception's.
\<close>

definition catch_server_error :: "string list \<Rightarrow> string \<Rightarrow> string \<Rightarrow> exn \<Rightarrow> outcome" where
  "catch_server_error module_bindings p v e =
     (if v \<in> set (handler_scope module_bindings p)
      then logging (if v = p then Err_message e else Log_string ''undefined'')
             (respond 500 (Text ''Server Error''))
      else uncaught ReferenceError)"

text \<open>
  The run of a \<open>try\<close> block over a store: it completes with an outcome, or throws after
  having written some console entries; either way it leaves a store behind. \<open>catching\<close>
  hands a thrown exception to the catch block.
\<close>

datatype 's tried = Threw exn "log_entry list" 's | Done outcome 's

fun catching :: "(exn \<Rightarrow> outcome) \<Rightarrow> 's tried \<Rightarrow> outcome \<times> 's" where
  "catching handler (Threw e logs s) = ((handler e)\<lparr>console := logs @ console (handler e)\<rparr>, s)"
| "catching handler (Done out s) = (out, s)"

section \<open>Posts router\<close>

definition posts_bindings :: "string list" where
  "posts_bindings =
     [''express'', ''check'', ''validationResult'', ''auth'', ''router'', ''Post'', ''User'', ''Profile'']"

text \<open>
  The posts collection maps an ObjectId to its document. \<open>cast\<close> is Mongoose's cast of a
  request string to an ObjectId (\<open>None\<close>: the string is no ObjectId). \<open>findById\<close> raises
  \<open>CastError\<close> on a string that does not cast, and otherwise yields the key together with
  the document found (\<open>None\<close> for JavaScript's \<open>null\<close>).
\<close>

type_synonym 'k posts = "'k \<rightharpoonup> post"

definition findById :: "(string \<Rightarrow> 'k option) \<Rightarrow> 'k posts \<Rightarrow> string \<Rightarrow> exn + ('k \<times> post option)" where
  "findById cast ps pid = (case cast pid of None \<Rightarrow> Inl CastError | Some k \<Rightarrow> Inr (k, ps k))"

text \<open>\<^verbatim>\<open>router.put("/like/:id")\<close>: \<open>uid\<close> is \<open>req.user.id\<close>, set by the auth middleware.\<close>

definition like_try :: "(string \<Rightarrow> 'k option) \<Rightarrow> 'k posts \<Rightarrow> string \<Rightarrow> string \<Rightarrow> exn + (outcome \<times> 'k posts)" where
  "like_try cast ps pid uid =
     (case findById cast ps pid of
        Inl e \<Rightarrow> Inl e
      | Inr (k, None) \<Rightarrow> Inl TypeError
      | Inr (k, Some p) \<Rightarrow>
          if length (filter (\<lambda>l. like_user l = uid) (likes p)) > 0
          then Inr (respond 400 (Msg ''Post already liked''), ps)
          else let p' = p\<lparr>likes := \<lparr>like_user = uid\<rparr> # likes p\<rparr>
               in Inr (respond 200 (Likes (likes p')), ps(k \<mapsto> p')))"

definition like_handler :: "(string \<Rightarrow> 'k option) \<Rightarrow> 'k posts \<Rightarrow> string \<Rightarrow> string \<Rightarrow> outcome \<times> 'k posts" where
  "like_handler cast ps pid uid =
     (case like_try cast ps pid uid of
        Inl err \<Rightarrow> (catch_server_error posts_bindings ''err'' ''err'' err, ps)
      | Inr r \<Rightarrow> r)"

text \<open>The collection after \<open>n\<close> like requests in a row by the same user on the same post.\<close>

fun like_requests :: "nat \<Rightarrow> (string \<Rightarrow> 'k option) \<Rightarrow> 'k posts \<Rightarrow> string \<Rightarrow> string \<Rightarrow> 'k posts" where
  "like_requests 0 cast ps pid uid = ps"
| "like_requests (Suc n) cast ps pid uid = like_requests n cast (snd (like_handler cast ps pid uid)) pid uid"

text \<open>\<^verbatim>\<open>router.put("/unlike/:id")\<close>. The remove index is the array the \<open>map\<close> returns.\<close>

definition unlike_try :: "(string \<Rightarrow> 'k option) \<Rightarrow> 'k posts \<Rightarrow> string \<Rightarrow> string \<Rightarrow> exn + (outcome \<times> 'k posts)" where
  "unlike_try cast ps pid uid =
     (case findById cast ps pid of
        Inl e \<Rightarrow> Inl e
      | Inr (k, None) \<Rightarrow> Inl TypeError
      | Inr (k, Some p) \<Rightarrow>
          if length (filter (\<lambda>l. like_user l = uid) (likes p)) = 0
          then Inr (respond 400 (Msg ''Post has not yet been liked''), ps)
          else let removeIndex = map (\<lambda>l. String_indexOf (like_user l) uid) (likes p);
                   p' = p\<lparr>likes := splice (likes p) (Array_ToIntegerOrInfinity removeIndex) 1\<rparr>
               in Inr (respond 200 (Likes (likes p')), ps(k \<mapsto> p')))"

definition unlike_handler :: "(string \<Rightarrow> 'k option) \<Rightarrow> 'k posts \<Rightarrow> string \<Rightarrow> string \<Rightarrow> outcome \<times> 'k posts" where
  "unlike_handler cast ps pid uid =
     (case unlike_try cast ps pid uid of
        Inl err \<Rightarrow> (catch_server_error posts_bindings ''err'' ''err'' err, ps)
      | Inr r \<Rightarrow> r)"

text \<open>
  \<^verbatim>\<open>router.delete("/:id")\<close>. Its catch block answers 404 to an exception whose \<open>kind\<close> is
  \<open>ObjectId\<close> and 500 to any other.
\<close>

definition delete_post_try :: "(string \<Rightarrow> 'k option) \<Rightarrow> 'k posts \<Rightarrow> string \<Rightarrow> string \<Rightarrow> exn + (outcome \<times> 'k posts)" where
  "delete_post_try cast ps pid uid =
     (if \<not> match_hex24 pid then Inr (respond 404 (Msg ''Post not found''), ps)
      else case findById cast ps pid of
        Inl e \<Rightarrow> Inl e
      | Inr (k, None) \<Rightarrow> Inr (respond 404 (Msg ''Post not found''), ps)
      | Inr (k, Some p) \<Rightarrow>
          if post_user p \<noteq> uid then Inr (respond 401 (Msg ''user not authorized''), ps)
          else Inr (respond 200 (Msg ''Post Removed''), ps(k := None)))"

definition delete_post_handler :: "(string \<Rightarrow> 'k option) \<Rightarrow> 'k posts \<Rightarrow> string \<Rightarrow> string \<Rightarrow> outcome \<times> 'k posts" where
  "delete_post_handler cast ps pid uid =
     (case delete_post_try cast ps pid uid of
        Inl err \<Rightarrow>
          (if kind err = Some ''ObjectId''
           then logging (Err_message err) (respond 404 (Msg ''Post not found''))
           else catch_server_error posts_bindings ''err'' ''err'' err, ps)
      | Inr r \<Rightarrow> r)"

text \<open>\<^verbatim>\<open>router.delete("/comment/:id/:comment_id")\<close>.\<close>

definition delete_comment_try :: "(string \<Rightarrow> 'k option) \<Rightarrow> 'k posts \<Rightarrow> string \<Rightarrow> string \<Rightarrow> string \<Rightarrow> exn + (outcome \<times> 'k posts)" where
  "delete_comment_try cast ps pid cid uid =
     (case findById cast ps pid of
        Inl e \<Rightarrow> Inl e
      | Inr (k, None) \<Rightarrow> Inl TypeError
      | Inr (k, Some p) \<Rightarrow>
          (case find (\<lambda>c. comment_id c = cid) (comments p) of
             None \<Rightarrow> Inr (logging (Log_comment None) (respond 404 (Msg ''Comment doesn't exists'')), ps)
           | Some c \<Rightarrow>
               if comment_user c \<noteq> uid
               then Inr (logging (Log_comment (Some c)) (respond 401 (Msg ''User not authorized'')), ps)
               else let removeIndex = Array_indexOf (map comment_user (comments p)) uid;
                        p' = p\<lparr>comments := splice (comments p) removeIndex 1\<rparr>
                    in Inr (logging (Log_comment (Some c)) (respond 200 (Comments (comments p'))),
                            ps(k \<mapsto> p'))))"

definition delete_comment_handler :: "(string \<Rightarrow> 'k option) \<Rightarrow> 'k posts \<Rightarrow> string \<Rightarrow> string \<Rightarrow> string \<Rightarrow> outcome \<times> 'k posts" where
  "delete_comment_handler cast ps pid cid uid =
     (case delete_comment_try cast ps pid cid uid of
        Inl err \<Rightarrow> (catch_server_error posts_bindings ''err'' ''err'' err, ps)
      | Inr r \<Rightarrow> r)"

section \<open>Profile router\<close>

definition profile_bindings :: "string list" where
  "profile_bindings =
     [''express'', ''router'', ''auth'', ''Profile'', ''User'', ''config'', ''request'',
      ''check'', ''validationResult'', ''response'']"

text \<open>
  The profiles collection, looked up by the owning user's identifier as
  \<^verbatim>\<open>Profile.findOne({ user: req.user.id })\<close> does.
\<close>

type_synonym profiles = "string \<rightharpoonup> profile"

text \<open>
  \<^verbatim>\<open>router.get("/me")\<close>, on the outcome of the awaited lookup. The catch parameter is
  \<open>error\<close>; the block reads \<open>err\<close>.
\<close>

definition get_me_handler :: "exn + profile option \<Rightarrow> outcome" where
  "get_me_handler lookup =
     (case lookup of
        Inl error \<Rightarrow> catch_server_error profile_bindings ''error'' ''err'' error
      | Inr None \<Rightarrow> respond 400 (Msg ''There is no profile for this user'')
      | Inr (Some p) \<Rightarrow> respond 200 (ProfileDoc p))"

text \<open>\<^verbatim>\<open>router.post("/")\<close>: the request body, each field a JSON value or missing.\<close>

record 'o profile_body =
  b_company :: "'o jvalue option"
  b_website :: "'o jvalue option"
  b_location :: "'o jvalue option"
  b_bio :: "'o jvalue option"
  b_status :: "'o jvalue option"
  b_githubusername :: "'o jvalue option"
  b_skills :: "'o jvalue option"
  b_youtube :: "'o jvalue option"
  b_facebook :: "'o jvalue option"
  b_twitter :: "'o jvalue option"
  b_instagram :: "'o jvalue option"
  b_linkedin :: "'o jvalue option"

text \<open>
  The object \<open>profileFields\<close>: \<open>user\<close> and \<open>social\<close> are always assigned, every other key
  only when the body's field is truthy, with the value as the body has it.
\<close>

record 'o social_fields =
  sf_youtube :: "'o jvalue option"
  sf_twitter :: "'o jvalue option"
  sf_facebook :: "'o jvalue option"
  sf_linkedin :: "'o jvalue option"
  sf_instagram :: "'o jvalue option"

record 'o profile_fields =
  pf_user :: string
  pf_company :: "'o jvalue option"
  pf_website :: "'o jvalue option"
  pf_location :: "'o jvalue option"
  pf_bio :: "'o jvalue option"
  pf_status :: "'o jvalue option"
  pf_githubusername :: "'o jvalue option"
  pf_skills :: "jstring list option"
  pf_social :: "'o social_fields"

definition when_truthy :: "'o nonstrings \<Rightarrow> 'o jvalue option \<Rightarrow> 'o jvalue option" where
  "when_truthy J v = (if truthy J v then v else None)"

text \<open>
  \<^verbatim>\<open>if (skills) { profileFields.skills = skills.split(",").map((skill) => skill.trim()); }\<close>
  A truthy value that is not a string has no \<open>split\<close> method: the call raises \<open>TypeError\<close>.
\<close>

definition split_skills :: "'o nonstrings \<Rightarrow> 'o jvalue option \<Rightarrow> exn + jstring list option" where
  "split_skills J v =
     (if truthy J v
      then (case v of
              Some (JString s) \<Rightarrow> Inr (Some (map trim (split_comma s)))
            | Some (JOther x) \<Rightarrow> Inl TypeError
            | None \<Rightarrow> Inr None)
      else Inr None)"

definition build_profileFields :: "'o nonstrings \<Rightarrow> string \<Rightarrow> 'o profile_body \<Rightarrow> exn + 'o profile_fields" where
  "build_profileFields J uid b =
     (case split_skills J (b_skills b) of
        Inl e \<Rightarrow> Inl e
      | Inr sk \<Rightarrow>
          Inr \<lparr>pf_user = uid,
               pf_company = when_truthy J (b_company b),
               pf_website = when_truthy J (b_website b),
               pf_location = when_truthy J (b_location b),
               pf_bio = when_truthy J (b_bio b),
               pf_status = when_truthy J (b_status b),
               pf_githubusername = when_truthy J (b_githubusername b),
               pf_skills = sk,
               pf_social =
                 \<lparr>sf_youtube = when_truthy J (b_youtube b),
                  sf_twitter = when_truthy J (b_twitter b),
                  sf_facebook = when_truthy J (b_facebook b),
                  sf_linkedin = when_truthy J (b_linkedin b),
                  sf_instagram = when_truthy J (b_instagram b)\<rparr>\<rparr>)"

text \<open>
  Mongoose casts the values of \<open>profileFields\<close> to the schema's String paths before it
  writes: a value that does not cast makes the whole operation fail with \<open>CastError\<close>
  and nothing is written.
\<close>

record cast_fields =
  cf_user :: string
  cf_company :: "jstring option"
  cf_website :: "jstring option"
  cf_location :: "jstring option"
  cf_bio :: "jstring option"
  cf_status :: "jstring option"
  cf_githubusername :: "jstring option"
  cf_skills :: "jstring list option"
  cf_social :: social

definition cast_opt :: "'o nonstrings \<Rightarrow> 'o jvalue option \<Rightarrow> jstring option" where
  "cast_opt J v = (case v of None \<Rightarrow> None | Some x \<Rightarrow> castString J x)"

definition cast_fails :: "'o nonstrings \<Rightarrow> 'o jvalue option \<Rightarrow> bool" where
  "cast_fails J v = (case v of None \<Rightarrow> False | Some x \<Rightarrow> castString J x = None)"

definition cast_profileFields :: "'o nonstrings \<Rightarrow> 'o profile_fields \<Rightarrow> exn + cast_fields" where
  "cast_profileFields J pf =
     (if list_ex (cast_fails J)
           [pf_company pf, pf_website pf, pf_location pf, pf_bio pf, pf_status pf,
            pf_githubusername pf, sf_youtube (pf_social pf), sf_twitter (pf_social pf),
            sf_facebook (pf_social pf), sf_linkedin (pf_social pf), sf_instagram (pf_social pf)]
      then Inl CastError
      else Inr \<lparr>cf_user = pf_user pf,
                cf_company = cast_opt J (pf_company pf),
                cf_website = cast_opt J (pf_website pf),
                cf_location = cast_opt J (pf_location pf),
                cf_bio = cast_opt J (pf_bio pf),
                cf_status = cast_opt J (pf_status pf),
                cf_githubusername = cast_opt J (pf_githubusername pf),
                cf_skills = pf_skills pf,
                cf_social =
                  \<lparr>youtube = cast_opt J (sf_youtube (pf_social pf)),
                   twitter = cast_opt J (sf_twitter (pf_social pf)),
                   facebook = cast_opt J (sf_facebook (pf_social pf)),
                   linkedin = cast_opt J (sf_linkedin (pf_social pf)),
                   instagram = cast_opt J (sf_instagram (pf_social pf))\<rparr>\<rparr>)"

text \<open>
  The update \<^verbatim>\<open>{ $set: profileFields }\<close>: every key of the object replaces the stored
  value of that key, and a key the object lacks is left alone. \<open>social\<close> is one key.
\<close>

definition set_key :: "'a option \<Rightarrow> 'a \<Rightarrow> 'a" where
  "set_key new old = (case new of None \<Rightarrow> old | Some v \<Rightarrow> v)"

definition set_opt_key :: "'a option \<Rightarrow> 'a option \<Rightarrow> 'a option" where
  "set_opt_key new old = (case new of None \<Rightarrow> old | Some v \<Rightarrow> Some v)"

definition set_profileFields :: "cast_fields \<Rightarrow> profile \<Rightarrow> profile" where
  "set_profileFields cf p =
     p\<lparr>profile_user := cf_user cf,
       company := set_opt_key (cf_company cf) (company p),
       website := set_opt_key (cf_website cf) (website p),
       location := set_opt_key (cf_location cf) (location p),
       bio := set_opt_key (cf_bio cf) (bio p),
       status := set_opt_key (cf_status cf) (status p),
       githubusername := set_opt_key (cf_githubusername cf) (githubusername p),
       skills := set_key (cf_skills cf) (skills p),
       social := cf_social cf\<rparr>"

definition new_Profile :: "cast_fields \<Rightarrow> profile" where
  "new_Profile cf =
     \<lparr>profile_user = cf_user cf,
      company = cf_company cf,
      website = cf_website cf,
      location = cf_location cf,
      bio = cf_bio cf,
      status = cf_status cf,
      githubusername = cf_githubusername cf,
      skills = set_key (cf_skills cf) [],
      social = cf_social cf,
      experience = [],
      education = []\<rparr>"

definition profile_validation :: "'o nonstrings \<Rightarrow> 'o profile_body \<Rightarrow> string list" where
  "profile_validation J b =
     (if notEmpty J (b_status b) then [] else [''Status is required'']) @
     (if notEmpty J (b_skills b) then [] else [''skills is required''])"

text \<open>The \<open>try\<close> block: the lookup, then the update or the insertion.\<close>

definition upsert_profile_try :: "'o nonstrings \<Rightarrow> profiles \<Rightarrow> string \<Rightarrow> 'o profile_fields \<Rightarrow> exn + (outcome \<times> profiles)" where
  "upsert_profile_try J ps uid profileFields =
     (case ps uid of
        Some p \<Rightarrow>
          (case cast_profileFields J profileFields of
             Inl e \<Rightarrow> Inl e
           | Inr cf \<Rightarrow> (let p' = set_profileFields cf p
                        in Inr (respond 200 (ProfileDoc p'), ps(uid \<mapsto> p'))))
      | None \<Rightarrow>
          (case cast_profileFields J profileFields of
             Inl e \<Rightarrow> Inl e
           | Inr cf \<Rightarrow> (let p = new_Profile cf
                        in Inr (respond 200 (ProfileDoc p), ps(uid \<mapsto> p)))))"

text \<open>
  The handler. \<open>profileFields\<close> is built before the \<open>try\<close>, so the \<open>TypeError\<close> of a
  non-string \<open>skills\<close> escapes the handler: no response, nothing written. The catch block
  of the \<open>try\<close> reads its own parameter \<open>error\<close>.
\<close>

definition upsert_profile_handler :: "'o nonstrings \<Rightarrow> profiles \<Rightarrow> string \<Rightarrow> 'o profile_body \<Rightarrow> outcome \<times> profiles" where
  "upsert_profile_handler J ps uid b =
     (let errors = profile_validation J b in
      if errors \<noteq> [] then (respond 400 (Errors errors), ps)
      else (case build_profileFields J uid b of
              Inl e \<Rightarrow> (uncaught e, ps)
            | Inr profileFields \<Rightarrow>
                (case upsert_profile_try J ps uid profileFields of
                   Inl error \<Rightarrow> (catch_server_error profile_bindings ''error'' ''error'' error, ps)
                 | Inr r \<Rightarrow> r)))"





text \<open>\<^verbatim>\<open>router.delete("/experience/:exp_id")\<close> and \<^verbatim>\<open>router.delete("/education/:edu_id")\<close>.\<close>

definition delete_experience_try :: "profiles \<Rightarrow> string \<Rightarrow> string \<Rightarrow> exn + (outcome \<times> profiles)" where
  "delete_experience_try ps uid eid =
     (case ps uid of
        None \<Rightarrow> Inl TypeError
      | Some p \<Rightarrow>
          let removeIndex = Array_indexOf (map exp_id (experience p)) eid;
              p' = p\<lparr>experience := splice (experience p) removeIndex 1\<rparr>
          in Inr (respond 200 (ProfileDoc p'), ps(uid \<mapsto> p')))"

definition delete_experience_handler :: "profiles \<Rightarrow> string \<Rightarrow> string \<Rightarrow> outcome \<times> profiles" where
  "delete_experience_handler ps uid eid =
     (case delete_experience_try ps uid eid of
        Inl err \<Rightarrow> (catch_server_error profile_bindings ''err'' ''err'' err, ps)
      | Inr r \<Rightarrow> r)"

definition delete_education_try :: "profiles \<Rightarrow> string \<Rightarrow> string \<Rightarrow> exn + (outcome \<times> profiles)" where
  "delete_education_try ps uid eid =
     (case ps uid of
        None \<Rightarrow> Inl TypeError
      | Some p \<Rightarrow>
          let removeIndex = Array_indexOf (map edu_id (education p)) eid;
              p' = p\<lparr>education := splice (education p) removeIndex 1\<rparr>
          in Inr (respond 200 (ProfileDoc p'), ps(uid \<mapsto> p')))"

definition delete_education_handler :: "profiles \<Rightarrow> string \<Rightarrow> string \<Rightarrow> outcome \<times> profiles" where
  "delete_education_handler ps uid eid =
     (case delete_education_try ps uid eid of
        Inl err \<Rightarrow> (catch_server_error profile_bindings ''err'' ''err'' err, ps)
      | Inr r \<Rightarrow> r)"






section \<open>Users router\<close>

definition users_bindings :: "string list" where
  "users_bindings =
     [''express'', ''router'', ''gravatar'', ''bcrypt'', ''check'', ''validationResult'',
      ''jwt'', ''config'', ''User'']"

text \<open>
  How \<open>jwt.sign\<close> ends: it hands a token to the callback; or it hands the callback an
  error while \<open>sign\<close> is still running, so that the callback's \<open>throw\<close> is inside the
  handler's \<open>try\<close>; or it hands the error over later, when the handler has returned.
\<close>

datatype sign_result = Signed string | Sign_error_sync | Sign_error_async

text \<open>The request body, each field a JSON value or missing.\<close>

record 'o register_body =
  r_name :: "'o jvalue option"
  r_email :: "'o jvalue option"
  r_password :: "'o jvalue option"

text \<open>
  The libraries the registration handler calls are parameters: the validator's
  \<open>isEmail\<close> and \<open>isLength\<close> (on strings and on other values), \<open>gravatar.url\<close>,
  \<open>bcrypt.hash\<close>, the configured secret (\<open>None\<close>: \<open>config.get\<close> throws), \<open>jwt.sign\<close>, and
  what Mongoose, gravatar and bcrypt make inside the \<open>try\<close> of a validated body in which
  name, email or password is not a string.
\<close>

record 'o libs =
  isEmail :: "jstring \<Rightarrow> bool"
  isEmail_other :: "'o \<Rightarrow> bool"
  isLength_min :: "nat \<Rightarrow> jstring \<Rightarrow> bool"
  isLength_min_other :: "nat \<Rightarrow> 'o \<Rightarrow> bool"
  gravatar_url :: "jstring \<Rightarrow> (string \<times> string) list \<Rightarrow> string"
  bcrypt_hash :: "jstring \<Rightarrow> string \<Rightarrow> string"
  jwtSecret :: "string option"
  jwt_sign :: "string \<Rightarrow> string \<Rightarrow> nat \<Rightarrow> sign_result"
  register_nonstring :: "user list \<Rightarrow> 'o register_body \<Rightarrow> user list tried"

text \<open>The validators; a missing field is validated as the empty string.\<close>

fun check_isEmail :: "'o libs \<Rightarrow> 'o jvalue option \<Rightarrow> bool" where
  "check_isEmail L None = isEmail L []"
| "check_isEmail L (Some (JString s)) = isEmail L s"
| "check_isEmail L (Some (JOther v)) = isEmail_other L v"

fun check_isLength :: "'o libs \<Rightarrow> nat \<Rightarrow> 'o jvalue option \<Rightarrow> bool" where
  "check_isLength L n None = isLength_min L n []"
| "check_isLength L n (Some (JString s)) = isLength_min L n s"
| "check_isLength L n (Some (JOther v)) = isLength_min_other L n v"

definition register_validation :: "'o nonstrings \<Rightarrow> 'o libs \<Rightarrow> 'o register_body \<Rightarrow> string list" where
  "register_validation J L b =
     (if notEmpty J (r_name b) then [] else [''Name is required'']) @
     (if check_isEmail L (r_email b) then [] else [''Please include a valid email'']) @
     (if check_isLength L 6 (r_password b) then [] else [''Please enter a password with 6 or more chars''])"

fun all_strings :: "'o jvalue option \<Rightarrow> 'o jvalue option \<Rightarrow> 'o jvalue option \<Rightarrow> (jstring \<times> jstring \<times> jstring) option" where
  "all_strings (Some (JString name)) (Some (JString email)) (Some (JString password)) =
     Some (name, email, password)"
| "all_strings n e p = None"

text \<open>
  The \<open>try\<close> block of \<^verbatim>\<open>router.post("/")\<close> of the users router. \<open>salt\<close> is what
  \<open>bcrypt.genSalt\<close> returned and \<open>new_id\<close> the identifier the new document received. The
  user is saved before the token is signed.
\<close>

definition register_try :: "'o libs \<Rightarrow> string \<Rightarrow> string \<Rightarrow> user list \<Rightarrow> 'o register_body \<Rightarrow> user list tried" where
  "register_try L salt new_id us b =
     (case all_strings (r_name b) (r_email b) (r_password b) of
        None \<Rightarrow> register_nonstring L us b
      | Some (name, email, password) \<Rightarrow>
          (case find (\<lambda>u. user_email u = email) us of
             Some u \<Rightarrow> Done (respond 400 (Errors [''User already exists''])) us
           | None \<Rightarrow>
               (let avatar = gravatar_url L email [(''s'', ''200''), (''r'', ''pg''), (''d'', ''mm'')];
                    u = \<lparr>user_id = new_id, user_name = name, user_email = email,
                         user_avatar = avatar, user_password = bcrypt_hash L password salt\<rparr>;
                    us' = us @ [u]
                in (case jwtSecret L of
                      None \<Rightarrow> Threw LibraryError [Log_string (user_password u)] us'
                    | Some secret \<Rightarrow>
                        (case jwt_sign L (user_id u) secret 360000 of
                           Signed token \<Rightarrow>
                             Done (logging (Log_string (user_password u)) (respond 200 (Token token))) us'
                         | Sign_error_sync \<Rightarrow> Threw LibraryError [Log_string (user_password u)] us'
                         | Sign_error_async \<Rightarrow>
                             Done (logging (Log_string (user_password u)) (uncaught LibraryError)) us')))))"

text \<open>The handler: validation, then the \<open>try\<close> block under its catch block.\<close>

definition register_handler :: "'o nonstrings \<Rightarrow> 'o libs \<Rightarrow> string \<Rightarrow> string \<Rightarrow> user list \<Rightarrow> 'o register_body \<Rightarrow> outcome \<times> user list" where
  "register_handler J L salt new_id us b =
     (let errors = register_validation J L b in
      if errors \<noteq> [] then (respond 400 (Errors errors), us)
      else catching (catch_server_error users_bindings ''error'' ''error'')
             (register_try L salt new_id us b))"

section \<open>Example documents\<close>

definition post0 :: post where
  "post0 = \<lparr>post_user = ''u1'', post_text = ''hello'', post_name = ''Ann'', post_avatar = ''g'',
            likes = [], comments = []\<rparr>"

definition post_two_likes :: post where
  "post_two_likes = post0\<lparr>likes := [\<lparr>like_user = ''uB''\<rparr>, \<lparr>like_user = ''uA''\<rparr>]\<rparr>"

definition oid1 :: string where
  "oid1 = ''5f1a2b3c4d5e6f7a8b9c0d1e''"

definition comment_a :: comment where
  "comment_a = \<lparr>comment_id = ''c1'', comment_user = ''u1'', comment_text = ''first'',
                comment_name = ''Ann'', comment_avatar = ''g''\<rparr>"

definition comment_b :: comment where
  "comment_b = \<lparr>comment_id = ''c2'', comment_user = ''u1'', comment_text = ''second'',
                comment_name = ''Ann'', comment_avatar = ''g''\<rparr>"

definition post_two_comments :: post where
  "post_two_comments = post0\<lparr>comments := [comment_a, comment_b]\<rparr>"

definition exp_a :: experience where
  "exp_a = \<lparr>exp_id = ''e1'', exp_title = ''Engineer'', exp_company = ''Acme''\<rparr>"

definition exp_b :: experience where
  "exp_b = \<lparr>exp_id = ''e2'', exp_title = ''Intern'', exp_company = ''Initech''\<rparr>"

definition edu_a :: education where
  "edu_a = \<lparr>edu_id = ''s1'', edu_school = ''MIT'', edu_degree = ''MSc'', edu_fieldofstudy = ''CS''\<rparr>"

definition edu_b :: education where
  "edu_b = \<lparr>edu_id = ''s2'', edu_school = ''ETH'', edu_degree = ''BSc'', edu_fieldofstudy = ''Maths''\<rparr>"

definition profile0 :: profile where
  "profile0 =
     \<lparr>profile_user = ''u1'', company = None, website = None, location = None,
      bio = Some (js ''hi''), status = Some (js ''student''), githubusername = None,
      skills = [js ''c''],
      social = \<lparr>youtube = Some (js ''yt''), twitter = None, facebook = None, linkedin = None,
                instagram = None\<rparr>,
      experience = [exp_a, exp_b], education = [edu_a, edu_b]\<rparr>"









section \<open>Properties of the built-ins\<close>

lemma splice_at_index:
  "i < length xs \<Longrightarrow> splice xs (int i) 1 = take i xs @ drop (Suc i) xs"
proof -
  assume i: "i < length xs"
  have a: "nat (int i + 1) = Suc i" by simp
  from i show ?thesis by (simp add: splice_def Let_def min_def max_def a)
qed

lemma splice_minus_one:
  "splice xs (- 1) 1 = butlast xs"
proof (cases "xs = []")
  case True
  then show ?thesis by (simp add: splice_def)
next
  case False
  then have len: "0 < length xs" by simp
  have a: "nat (int (length xs) - 1) = length xs - 1" by simp
  from len show ?thesis
    by (simp add: splice_def Let_def min_def max_def a butlast_conv_take)
qed

lemma Array_indexOf_from_absent:
  "v \<notin> set xs \<Longrightarrow> Array_indexOf_from i xs v = - 1"
  by (induction xs arbitrary: i) auto

lemma Array_indexOf_absent:
  "v \<notin> set xs \<Longrightarrow> Array_indexOf xs v = - 1"
  by (simp add: Array_indexOf_def Array_indexOf_from_absent)

lemma Array_indexOf_from_present:
  "v \<in> set xs \<Longrightarrow>
     \<exists>j. Array_indexOf_from i xs v = int (i + j) \<and> j < length xs \<and> xs ! j = v \<and> v \<notin> set (take j xs)"
proof (induction xs arbitrary: i)
  case Nil
  then show ?case by simp
next
  case (Cons x xs)
  show ?case
  proof (cases "x = v")
    case True
    then show ?thesis by (intro exI [of _ 0]) simp
  next
    case False
    with Cons.prems have "v \<in> set xs" by simp
    from Cons.IH [OF this, of "Suc i"] obtain j where
      j: "Array_indexOf_from (Suc i) xs v = int (Suc i + j)" "j < length xs" "xs ! j = v"
         "v \<notin> set (take j xs)"
      by blast
    with False show ?thesis by (intro exI [of _ "Suc j"]) simp
  qed
qed

lemma Array_indexOf_present:
  "v \<in> set xs \<Longrightarrow>
     \<exists>j. Array_indexOf xs v = int j \<and> j < length xs \<and> xs ! j = v \<and> v \<notin> set (take j xs)"
  using Array_indexOf_from_present [of v xs 0] by (simp add: Array_indexOf_def)

lemma find_Some_member:
  "find P xs = Some x \<Longrightarrow> x \<in> set xs \<and> P x"
  by (induction xs) (auto split: if_splits)

lemma startsWith_refl: "startsWith s s"
  by (induction s) simp_all

lemma String_indexOf_self: "String_indexOf s s = 0"
  by (cases s) (simp_all add: String_indexOf_def startsWith_refl)

section \<open>Properties of the posts router\<close>

text \<open>A catch block that reads its own parameter logs the message and answers 500.\<close>

lemma catch_reads_its_parameter:
  "catch_server_error bindings p p e = logging (Err_message e) (respond 500 (Text ''Server Error''))"
  by (simp add: catch_server_error_def handler_scope_def)

lemma like_handler_liked:
  assumes "cast pid = Some k" and "ps k = Some p"
    and "filter (\<lambda>l. like_user l = uid) (likes p) \<noteq> []"
  shows "like_handler cast ps pid uid = (respond 400 (Msg ''Post already liked''), ps)"
  using assms by (simp add: like_handler_def like_try_def findById_def)

lemma like_handler_fresh:
  assumes "cast pid = Some k" and "ps k = Some p"
    and "filter (\<lambda>l. like_user l = uid) (likes p) = []"
  shows "like_handler cast ps pid uid =
           (respond 200 (Likes (\<lparr>like_user = uid\<rparr> # likes p)),
            ps(k \<mapsto> p\<lparr>likes := \<lparr>like_user = uid\<rparr> # likes p\<rparr>))"
  using assms by (simp add: like_handler_def like_try_def findById_def Let_def)

lemma like_requests_at_most_one:
  assumes "cast pid = Some k"
  shows "ps k = Some p \<Longrightarrow> length (filter (\<lambda>l. like_user l = uid) (likes p)) \<le> 1 \<Longrightarrow>
         \<exists>p'. like_requests n cast ps pid uid k = Some p' \<and>
              length (filter (\<lambda>l. like_user l = uid) (likes p')) \<le> 1"
proof (induction n arbitrary: ps p)
  case 0
  then show ?case by simp
next
  case (Suc n)
  show ?case
  proof (cases "filter (\<lambda>l. like_user l = uid) (likes p) = []")
    case True
    let ?p = "p\<lparr>likes := \<lparr>like_user = uid\<rparr> # likes p\<rparr>"
    from True have step: "snd (like_handler cast ps pid uid) = ps(k \<mapsto> ?p)"
      using like_handler_fresh [of cast pid k ps p uid] assms Suc.prems(1) by simp
    have "\<exists>p'. like_requests n cast (ps(k \<mapsto> ?p)) pid uid k = Some p' \<and>
               length (filter (\<lambda>l. like_user l = uid) (likes p')) \<le> 1"
      by (rule Suc.IH [of "ps(k \<mapsto> ?p)" ?p]) (simp_all add: True)
    then show ?thesis by (simp only: like_requests.simps step)
  next
    case False
    then have "snd (like_handler cast ps pid uid) = ps"
      using like_handler_liked [of cast pid k ps p uid] assms Suc.prems(1) by simp
    moreover have "\<exists>p'. like_requests n cast ps pid uid k = Some p' \<and>
               length (filter (\<lambda>l. like_user l = uid) (likes p')) \<le> 1"
      by (rule Suc.IH [of ps p]) (rule Suc.prems)+
    ultimately show ?thesis by (simp only: like_requests.simps)
  qed
qed

text \<open>
  Claim C3. A like request on an existing post answers 400 "Post already liked" and leaves
  the collection as it was when the requester's identifier is already among the likes;
  otherwise it puts exactly one like entry for the requester at the head of the list.
  Hence a post on which the requester has at most one like entry still has at most one
  after any number of like requests by that user.
\<close>

theorem like_at_most_once:
  assumes "cast pid = Some k" and "ps k = Some p"
  shows "(if length (filter (\<lambda>l. like_user l = uid) (likes p)) > 0
          then like_handler cast ps pid uid = (respond 400 (Msg ''Post already liked''), ps)
          else like_handler cast ps pid uid =
                 (respond 200 (Likes (\<lparr>like_user = uid\<rparr> # likes p)),
                  ps(k \<mapsto> p\<lparr>likes := \<lparr>like_user = uid\<rparr> # likes p\<rparr>)))
       \<and> (length (filter (\<lambda>l. like_user l = uid) (likes p)) \<le> 1 \<longrightarrow>
            (\<forall>n. \<exists>p'. like_requests n cast ps pid uid k = Some p' \<and>
                  length (filter (\<lambda>l. like_user l = uid) (likes p')) \<le> 1))"
proof (intro conjI impI allI)
  show "if length (filter (\<lambda>l. like_user l = uid) (likes p)) > 0
        then like_handler cast ps pid uid = (respond 400 (Msg ''Post already liked''), ps)
        else like_handler cast ps pid uid =
               (respond 200 (Likes (\<lparr>like_user = uid\<rparr> # likes p)),
                ps(k \<mapsto> p\<lparr>likes := \<lparr>like_user = uid\<rparr> # likes p\<rparr>))"
    using like_handler_liked [of cast pid k ps p uid] like_handler_fresh [of cast pid k ps p uid] assms
    by (cases "filter (\<lambda>l. like_user l = uid) (likes p) = []") simp_all
next
  fix n
  assume "length (filter (\<lambda>l. like_user l = uid) (likes p)) \<le> 1"
  with like_requests_at_most_one [of cast pid k ps p uid n] assms
  show "\<exists>p'. like_requests n cast ps pid uid k = Some p' \<and>
             length (filter (\<lambda>l. like_user l = uid) (likes p')) \<le> 1"
    by blast
qed

theorem like_at_most_once_witness:
  "like_handler Some [''p1'' \<mapsto> post0] ''p1'' ''u2'' =
     (respond 200 (Likes [\<lparr>like_user = ''u2''\<rparr>]),
      [''p1'' \<mapsto> post0\<lparr>likes := [\<lparr>like_user = ''u2''\<rparr>]\<rparr>])
   \<and> (\<exists>p'. like_requests 2 Some [''p1'' \<mapsto> post0] ''p1'' ''u2'' ''p1'' = Some p' \<and>
          length (filter (\<lambda>l. like_user l = ''u2'') (likes p')) \<le> 1)"
  using like_at_most_once [of Some "''p1''" "''p1''" "[''p1'' \<mapsto> post0]" post0 "''u2''"]
  by (simp add: post0_def)

text \<open>
  Claim C10. When the identifier of a like or unlike request casts to an ObjectId under
  which no post is stored, the lookup yields null, reading its likes raises a
  \<open>TypeError\<close>, and the handler answers 500 "Server Error" (not 404), the collection
  unchanged.
\<close>

theorem like_unlike_missing_post:
  assumes "cast pid = Some k" and "ps k = None"
  shows "findById cast ps pid = Inr (k, None)
       \<and> like_try cast ps pid uid = Inl TypeError
       \<and> unlike_try cast ps pid uid = Inl TypeError
       \<and> like_handler cast ps pid uid =
           (logging (Err_message TypeError) (respond 500 (Text ''Server Error'')), ps)
       \<and> unlike_handler cast ps pid uid =
           (logging (Err_message TypeError) (respond 500 (Text ''Server Error'')), ps)"
  using assms
  by (simp add: findById_def like_try_def unlike_try_def like_handler_def unlike_handler_def
      catch_server_error_def handler_scope_def)

theorem like_unlike_missing_post_witness:
  "sent (fst (like_handler Some Map.empty ''p9'' ''u1'')) = Some \<lparr>code = 500, payload = Text ''Server Error''\<rparr>
 \<and> sent (fst (unlike_handler Some Map.empty ''p9'' ''u1'')) = Some \<lparr>code = 500, payload = Text ''Server Error''\<rparr>"
  using like_unlike_missing_post [of Some "''p9''" "''p9''" Map.empty "''u1''"]
  by (simp add: logging_def respond_def)

lemma unlike_handler_not_liked:
  assumes "cast pid = Some k" and "ps k = Some p"
    and "filter (\<lambda>l. like_user l = uid) (likes p) = []"
  shows "unlike_handler cast ps pid uid = (respond 400 (Msg ''Post has not yet been liked''), ps)"
  using assms by (simp add: unlike_handler_def unlike_try_def findById_def)

lemma unlike_handler_only_like:
  assumes "cast pid = Some k" and "ps k = Some p" and "likes p = [\<lparr>like_user = uid\<rparr>]"
  shows "unlike_handler cast ps pid uid = (respond 200 (Likes []), ps(k \<mapsto> p\<lparr>likes := []\<rparr>))"
  using assms
  by (simp add: unlike_handler_def unlike_try_def findById_def Let_def String_indexOf_self splice_def)

lemma unlike_handler_drops_head:
  assumes "cast pid = Some k" and "ps k = Some p" and "likes p = a # b # rest"
    and "filter (\<lambda>l. like_user l = uid) (likes p) \<noteq> []"
  shows "unlike_handler cast ps pid uid =
           (respond 200 (Likes (b # rest)), ps(k \<mapsto> p\<lparr>likes := b # rest\<rparr>))"
proof -
  have "splice (a # b # rest) 0 1 = b # rest"
    by (simp add: splice_def Let_def)
  with assms show ?thesis
    by (simp add: unlike_handler_def unlike_try_def findById_def Let_def)
qed

text \<open>
  Claim C1. The unlike route is meant to remove the requester's like entry and no other.
  On a post liked first by \<open>uA\<close> and then by \<open>uB\<close> (so that the list is \<open>uB, uA\<close>), an
  unlike request by \<open>uA\<close> removes the entry of \<open>uB\<close> and keeps the entry of \<open>uA\<close>: the
  remove index is an array, which \<open>splice\<close> reads as position 0.
\<close>

theorem unlike_removes_another_users_like:
  "unlike_handler Some [''p1'' \<mapsto> post_two_likes] ''p1'' ''uA'' =
     (respond 200 (Likes [\<lparr>like_user = ''uA''\<rparr>]),
      [''p1'' \<mapsto> post_two_likes\<lparr>likes := [\<lparr>like_user = ''uA''\<rparr>]\<rparr>])"
  by (simp add: unlike_handler_def unlike_try_def findById_def Let_def post_two_likes_def
      post0_def String_indexOf_def splice_def)

text \<open>
  Claim C7. A post-delete request answers 404 when the identifier does not match the
  pattern or no post is stored under it, the collection unchanged; on an existing post
  it answers 401 and leaves the collection unchanged when the requester is not the
  author, and removes the post only when the requester is the author.
\<close>

theorem delete_post_authorisation:
  "((\<not> match_hex24 pid \<or> (\<forall>k. cast pid = Some k \<longrightarrow> ps k = None)) \<longrightarrow>
      sent (fst (delete_post_handler cast ps pid uid)) =
        Some \<lparr>code = 404, payload = Msg ''Post not found''\<rparr>
      \<and> snd (delete_post_handler cast ps pid uid) = ps)
   \<and> (\<forall>k p. match_hex24 pid \<and> cast pid = Some k \<and> ps k = Some p \<longrightarrow>
        (if post_user p \<noteq> uid
         then delete_post_handler cast ps pid uid = (respond 401 (Msg ''user not authorized''), ps)
         else delete_post_handler cast ps pid uid =
                (respond 200 (Msg ''Post Removed''), ps(k := None))))"
proof (intro conjI impI allI)
  assume missing: "\<not> match_hex24 pid \<or> (\<forall>k. cast pid = Some k \<longrightarrow> ps k = None)"
  show "sent (fst (delete_post_handler cast ps pid uid)) =
          Some \<lparr>code = 404, payload = Msg ''Post not found''\<rparr>"
  proof (cases "match_hex24 pid")
    case False
    then show ?thesis
      by (simp add: delete_post_handler_def delete_post_try_def respond_def)
  next
    case True
    with missing have none: "\<forall>k. cast pid = Some k \<longrightarrow> ps k = None" by simp
    show ?thesis
    proof (cases "cast pid")
      case None
      with True show ?thesis
        by (simp add: delete_post_handler_def delete_post_try_def findById_def respond_def
            logging_def)
    next
      case (Some k)
      with none have "ps k = None" by simp
      with True Some show ?thesis
        by (simp add: delete_post_handler_def delete_post_try_def findById_def respond_def)
    qed
  qed
  show "snd (delete_post_handler cast ps pid uid) = ps"
  proof (cases "match_hex24 pid")
    case False
    then show ?thesis
      by (simp add: delete_post_handler_def delete_post_try_def)
  next
    case True
    with missing have none: "\<forall>k. cast pid = Some k \<longrightarrow> ps k = None" by simp
    show ?thesis
    proof (cases "cast pid")
      case None
      with True show ?thesis
        by (simp add: delete_post_handler_def delete_post_try_def findById_def)
    next
      case (Some k)
      with none have "ps k = None" by simp
      with True Some show ?thesis
        by (simp add: delete_post_handler_def delete_post_try_def findById_def)
    qed
  qed
next
  fix k p
  assume "match_hex24 pid \<and> cast pid = Some k \<and> ps k = Some p"
  then show "if post_user p \<noteq> uid
         then delete_post_handler cast ps pid uid = (respond 401 (Msg ''user not authorized''), ps)
         else delete_post_handler cast ps pid uid =
                (respond 200 (Msg ''Post Removed''), ps(k := None))"
    by (simp add: delete_post_handler_def delete_post_try_def findById_def)
qed

theorem delete_post_authorisation_witness:
  "sent (fst (delete_post_handler Some [oid1 \<mapsto> post0] ''nonsense'' ''u1'')) =
     Some \<lparr>code = 404, payload = Msg ''Post not found''\<rparr>
   \<and> delete_post_handler Some [oid1 \<mapsto> post0] oid1 ''u2'' =
       (respond 401 (Msg ''user not authorized''), [oid1 \<mapsto> post0])
   \<and> delete_post_handler Some [oid1 \<mapsto> post0] oid1 ''u1'' =
       (respond 200 (Msg ''Post Removed''), [oid1 \<mapsto> post0](oid1 := None))"
proof -
  have hex: "match_hex24 oid1"
    by (simp add: match_hex24_def oid1_def is_hex_def)
  have bad: "\<not> match_hex24 ''nonsense''"
    by (simp add: match_hex24_def)
  have u: "post_user post0 = ''u1''"
    by (simp add: post0_def)
  from delete_post_authorisation [of "''nonsense''" Some "[oid1 \<mapsto> post0]" "''u1''"] bad
  have a: "sent (fst (delete_post_handler Some [oid1 \<mapsto> post0] ''nonsense'' ''u1'')) =
     Some \<lparr>code = 404, payload = Msg ''Post not found''\<rparr>"
    by blast
  from delete_post_authorisation [of oid1 Some "[oid1 \<mapsto> post0]" "''u2''"] hex u
  have b: "delete_post_handler Some [oid1 \<mapsto> post0] oid1 ''u2'' =
       (respond 401 (Msg ''user not authorized''), [oid1 \<mapsto> post0])"
    by simp
  from delete_post_authorisation [of oid1 Some "[oid1 \<mapsto> post0]" "''u1''"] hex u
  have c: "delete_post_handler Some [oid1 \<mapsto> post0] oid1 ''u1'' =
       (respond 200 (Msg ''Post Removed''), [oid1 \<mapsto> post0](oid1 := None))"
    by simp
  from a b c show ?thesis by simp
qed

lemma delete_comment_missing:
  assumes "cast pid = Some k" and "ps k = Some p"
    and "find (\<lambda>c. comment_id c = cid) (comments p) = None"
  shows "delete_comment_handler cast ps pid cid uid =
           (logging (Log_comment None) (respond 404 (Msg ''Comment doesn't exists'')), ps)"
  using assms by (simp add: delete_comment_handler_def delete_comment_try_def findById_def)

lemma delete_comment_not_author:
  assumes "cast pid = Some k" and "ps k = Some p"
    and "find (\<lambda>c. comment_id c = cid) (comments p) = Some c" and "comment_user c \<noteq> uid"
  shows "delete_comment_handler cast ps pid cid uid =
           (logging (Log_comment (Some c)) (respond 401 (Msg ''User not authorized'')), ps)"
  using assms by (simp add: delete_comment_handler_def delete_comment_try_def findById_def)

lemma delete_comment_author:
  assumes "cast pid = Some k" and "ps k = Some p"
    and "find (\<lambda>c. comment_id c = cid) (comments p) = Some c" and "comment_user c = uid"
  shows "\<exists>i. i < length (comments p) \<and> comment_user (comments p ! i) = uid
            \<and> uid \<notin> set (map comment_user (take i (comments p)))
            \<and> delete_comment_handler cast ps pid cid uid =
                (logging (Log_comment (Some c))
                   (respond 200 (Comments (take i (comments p) @ drop (Suc i) (comments p)))),
                 ps(k \<mapsto> p\<lparr>comments := take i (comments p) @ drop (Suc i) (comments p)\<rparr>))"
proof -
  from assms(3) have "c \<in> set (comments p)"
    using find_Some_member [of "\<lambda>c. comment_id c = cid" "comments p" c] by simp
  with assms(4) have "uid \<in> set (map comment_user (comments p))" by auto
  from Array_indexOf_present [OF this] obtain i where
    i: "Array_indexOf (map comment_user (comments p)) uid = int i"
       "i < length (comments p)" "map comment_user (comments p) ! i = uid"
       "uid \<notin> set (take i (map comment_user (comments p)))"
    by auto
  from i(2) have sp: "splice (comments p) (int i) 1 = take i (comments p) @ drop (Suc i) (comments p)"
    by (rule splice_at_index)
  have run: "delete_comment_handler cast ps pid cid uid =
                (logging (Log_comment (Some c))
                   (respond 200 (Comments (take i (comments p) @ drop (Suc i) (comments p)))),
                 ps(k \<mapsto> p\<lparr>comments := take i (comments p) @ drop (Suc i) (comments p)\<rparr>))"
    using assms i(1) sp
    by (simp add: delete_comment_handler_def delete_comment_try_def findById_def Let_def)
  from i(2,3) have "comment_user (comments p ! i) = uid" by simp
  moreover from i(4) have "uid \<notin> set (map comment_user (take i (comments p)))"
    by (simp add: take_map)
  ultimately show ?thesis using i(2) run by blast
qed

text \<open>
  Claim C5. A comment-delete request on an existing post answers 404 when no comment has
  the given identifier, and 401 with the collection unchanged when that comment's user is
  not the requester. Otherwise it removes the comment at the first position whose user
  is the requester, whichever comment the identifier named: in the example after the
  theorem the requester asks for the second of two own comments and loses the first.
\<close>

theorem delete_comment_by_user_position:
  assumes "cast pid = Some k" and "ps k = Some p"
  shows "(find (\<lambda>c. comment_id c = cid) (comments p) = None \<longrightarrow>
            sent (fst (delete_comment_handler cast ps pid cid uid)) =
              Some \<lparr>code = 404, payload = Msg ''Comment doesn't exists''\<rparr>
            \<and> snd (delete_comment_handler cast ps pid cid uid) = ps)
       \<and> (\<forall>c. find (\<lambda>c. comment_id c = cid) (comments p) = Some c \<and> comment_user c \<noteq> uid \<longrightarrow>
            sent (fst (delete_comment_handler cast ps pid cid uid)) =
              Some \<lparr>code = 401, payload = Msg ''User not authorized''\<rparr>
            \<and> snd (delete_comment_handler cast ps pid cid uid) = ps)
       \<and> (\<forall>c. find (\<lambda>c. comment_id c = cid) (comments p) = Some c \<and> comment_user c = uid \<longrightarrow>
            (\<exists>i. i < length (comments p) \<and> comment_user (comments p ! i) = uid
               \<and> uid \<notin> set (map comment_user (take i (comments p)))
               \<and> sent (fst (delete_comment_handler cast ps pid cid uid)) =
                   Some \<lparr>code = 200,
                         payload = Comments (take i (comments p) @ drop (Suc i) (comments p))\<rparr>
               \<and> snd (delete_comment_handler cast ps pid cid uid) =
                   ps(k \<mapsto> p\<lparr>comments := take i (comments p) @ drop (Suc i) (comments p)\<rparr>)))"
proof (intro conjI impI allI)
  assume "find (\<lambda>c. comment_id c = cid) (comments p) = None"
  from delete_comment_missing [of cast pid k ps p cid uid, OF assms this]
  show "sent (fst (delete_comment_handler cast ps pid cid uid)) =
          Some \<lparr>code = 404, payload = Msg ''Comment doesn't exists''\<rparr>"
    and "snd (delete_comment_handler cast ps pid cid uid) = ps"
    by (simp_all add: logging_def respond_def)
next
  fix c
  assume "find (\<lambda>c. comment_id c = cid) (comments p) = Some c \<and> comment_user c \<noteq> uid"
  then have "delete_comment_handler cast ps pid cid uid =
           (logging (Log_comment (Some c)) (respond 401 (Msg ''User not authorized'')), ps)"
    using delete_comment_not_author [of cast pid k ps p cid c uid] assms by simp
  then show "sent (fst (delete_comment_handler cast ps pid cid uid)) =
          Some \<lparr>code = 401, payload = Msg ''User not authorized''\<rparr>"
    and "snd (delete_comment_handler cast ps pid cid uid) = ps"
    by (simp_all add: logging_def respond_def)
next
  fix c
  assume "find (\<lambda>c. comment_id c = cid) (comments p) = Some c \<and> comment_user c = uid"
  then obtain i where i: "i < length (comments p)" "comment_user (comments p ! i) = uid"
      "uid \<notin> set (map comment_user (take i (comments p)))"
      "delete_comment_handler cast ps pid cid uid =
                (logging (Log_comment (Some c))
                   (respond 200 (Comments (take i (comments p) @ drop (Suc i) (comments p)))),
                 ps(k \<mapsto> p\<lparr>comments := take i (comments p) @ drop (Suc i) (comments p)\<rparr>))"
    using delete_comment_author [of cast pid k ps p cid c uid] assms by blast
  from i(4) have "sent (fst (delete_comment_handler cast ps pid cid uid)) =
                   Some \<lparr>code = 200,
                         payload = Comments (take i (comments p) @ drop (Suc i) (comments p))\<rparr>"
    and "snd (delete_comment_handler cast ps pid cid uid) =
                   ps(k \<mapsto> p\<lparr>comments := take i (comments p) @ drop (Suc i) (comments p)\<rparr>)"
    by (simp_all add: logging_def respond_def)
  with i(1,2,3)
  show "\<exists>i. i < length (comments p) \<and> comment_user (comments p ! i) = uid
               \<and> uid \<notin> set (map comment_user (take i (comments p)))
               \<and> sent (fst (delete_comment_handler cast ps pid cid uid)) =
                   Some \<lparr>code = 200,
                         payload = Comments (take i (comments p) @ drop (Suc i) (comments p))\<rparr>
               \<and> snd (delete_comment_handler cast ps pid cid uid) =
                   ps(k \<mapsto> p\<lparr>comments := take i (comments p) @ drop (Suc i) (comments p)\<rparr>)"
    by blast
qed

theorem delete_comment_by_user_position_witness:
  "find (\<lambda>c. comment_id c = ''c2'') (comments post_two_comments) = Some comment_b
   \<and> snd (delete_comment_handler Some [''p1'' \<mapsto> post_two_comments] ''p1'' ''c2'' ''u1'') =
       [''p1'' \<mapsto> post_two_comments\<lparr>comments := [comment_b]\<rparr>]"
proof -
  have f: "find (\<lambda>c. comment_id c = ''c2'') (comments post_two_comments) = Some comment_b"
    by (simp add: post_two_comments_def comment_a_def comment_b_def)
  have u: "comment_user comment_b = ''u1''"
    by (simp add: comment_b_def)
  from delete_comment_by_user_position
         [of Some "''p1''" "''p1''" "[''p1'' \<mapsto> post_two_comments]" post_two_comments "''c2''" "''u1''"]
       f u
  obtain i where i: "i < length (comments post_two_comments)"
      "comment_user (comments post_two_comments ! i) = ''u1''"
      "''u1'' \<notin> set (map comment_user (take i (comments post_two_comments)))"
      "snd (delete_comment_handler Some [''p1'' \<mapsto> post_two_comments] ''p1'' ''c2'' ''u1'') =
         [''p1'' \<mapsto> post_two_comments\<lparr>comments :=
            take i (comments post_two_comments) @ drop (Suc i) (comments post_two_comments)\<rparr>]"
    by auto
  have "i = 0"
  proof (rule ccontr)
    assume "i \<noteq> 0"
    then obtain j where "i = Suc j" by (cases i) auto
    with i(3) show False
      by (simp add: post_two_comments_def comment_a_def)
  qed
  with i(4) f show ?thesis
    by (simp add: post_two_comments_def)
qed

section \<open>Properties of the profile router\<close>

lemma delete_experience_absent:
  assumes "ps uid = Some p" and "eid \<notin> set (map exp_id (experience p))"
  shows "Array_indexOf (map exp_id (experience p)) eid = - 1
       \<and> delete_experience_handler ps uid eid =
           (respond 200 (ProfileDoc (p\<lparr>experience := butlast (experience p)\<rparr>)),
            ps(uid \<mapsto> p\<lparr>experience := butlast (experience p)\<rparr>))"
  using assms
  by (simp add: delete_experience_handler_def delete_experience_try_def Let_def
      Array_indexOf_absent splice_minus_one del: set_map)

lemma delete_experience_present:
  assumes "ps uid = Some p" and "eid \<in> set (map exp_id (experience p))"
  shows "\<exists>i. i < length (experience p) \<and> exp_id (experience p ! i) = eid
           \<and> eid \<notin> set (map exp_id (take i (experience p)))
           \<and> delete_experience_handler ps uid eid =
               (respond 200 (ProfileDoc (p\<lparr>experience := take i (experience p) @ drop (Suc i) (experience p)\<rparr>)),
                ps(uid \<mapsto> p\<lparr>experience := take i (experience p) @ drop (Suc i) (experience p)\<rparr>))"
proof -
  from Array_indexOf_present [OF assms(2)] obtain i where
    i: "Array_indexOf (map exp_id (experience p)) eid = int i" "i < length (experience p)"
       "map exp_id (experience p) ! i = eid" "eid \<notin> set (take i (map exp_id (experience p)))"
    by auto
  from i(2) have sp: "splice (experience p) (int i) 1 = take i (experience p) @ drop (Suc i) (experience p)"
    by (rule splice_at_index)
  have "delete_experience_handler ps uid eid =
               (respond 200 (ProfileDoc (p\<lparr>experience := take i (experience p) @ drop (Suc i) (experience p)\<rparr>)),
                ps(uid \<mapsto> p\<lparr>experience := take i (experience p) @ drop (Suc i) (experience p)\<rparr>))"
    using assms(1) i(1) sp
    by (simp add: delete_experience_handler_def delete_experience_try_def Let_def)
  moreover from i(2,3) have "exp_id (experience p ! i) = eid" by simp
  moreover from i(4) have "eid \<notin> set (map exp_id (take i (experience p)))" by (simp add: take_map)
  ultimately show ?thesis using i(2) by blast
qed

lemma delete_education_absent:
  assumes "ps uid = Some p" and "eid \<notin> set (map edu_id (education p))"
  shows "Array_indexOf (map edu_id (education p)) eid = - 1
       \<and> delete_education_handler ps uid eid =
           (respond 200 (ProfileDoc (p\<lparr>education := butlast (education p)\<rparr>)),
            ps(uid \<mapsto> p\<lparr>education := butlast (education p)\<rparr>))"
  using assms
  by (simp add: delete_education_handler_def delete_education_try_def Let_def
      Array_indexOf_absent splice_minus_one del: set_map)

text \<open>
  Claim C2. Removing an experience or education entry by an identifier the list does not
  hold is meant to change nothing. The computed index is -1, and \<open>splice\<close> at -1 removes
  the last entry: on a profile with two entries of each kind, the unknown identifier
  \<open>nope\<close> leaves one.
\<close>

theorem delete_absent_entry_removes_last:
  "Array_indexOf (map exp_id (experience profile0)) ''nope'' = - 1
   \<and> delete_experience_handler [''u1'' \<mapsto> profile0] ''u1'' ''nope'' =
       (respond 200 (ProfileDoc (profile0\<lparr>experience := [exp_a]\<rparr>)),
        [''u1'' \<mapsto> profile0\<lparr>experience := [exp_a]\<rparr>])
   \<and> Array_indexOf (map edu_id (education profile0)) ''nope'' = - 1
   \<and> delete_education_handler [''u1'' \<mapsto> profile0] ''u1'' ''nope'' =
       (respond 200 (ProfileDoc (profile0\<lparr>education := [edu_a]\<rparr>)),
        [''u1'' \<mapsto> profile0\<lparr>education := [edu_a]\<rparr>])"
  by (simp add: delete_experience_handler_def delete_experience_try_def
      delete_education_handler_def delete_education_try_def Let_def
      Array_indexOf_def splice_def profile0_def exp_a_def exp_b_def edu_a_def edu_b_def)














text \<open>
  A body whose skills field is a truthy value that is not a string escapes the handler
  with \<open>TypeError\<close> once it has passed validation: no response, nothing written.
\<close>

lemma upsert_nonstring_skills:
  assumes "b_skills b = Some (JOther v)" and "ToBoolean_other J v" and "profile_validation J b = []"
  shows "upsert_profile_handler J ps uid b = (uncaught TypeError, ps)"
  using assms
  by (simp add: upsert_profile_handler_def build_profileFields_def split_skills_def)

text \<open>The trimming strips a NO-BREAK SPACE: \<open>js,\<close> U+00A0 \<open>hol\<close> gives the skills js and hol.\<close>

lemma trim_no_break_space:
  "map trim (split_comma [0x6A, 0x73, 0x2C, 0xA0, 0x68, 0x6F, 0x6C]) = [js ''js'', js ''hol'']"
  by (simp add: split_comma_def trim_def is_space_def js_def)



text \<open>
  Claim C9. When the profile lookup of \<^verbatim>\<open>GET /api/profile/me\<close> throws, the catch block
  reads \<open>err\<close>, which no binding in scope provides (the caught value is \<open>error\<close>): the
  block raises \<open>ReferenceError\<close> and neither logs nor sends the 500 "Server Error"
  response.
\<close>

theorem get_me_catch_throws:
  "get_me_handler (Inl e) = \<lparr>sent = None, thrown = Some ReferenceError, console = []\<rparr>"
  by (simp add: get_me_handler_def catch_server_error_def handler_scope_def
      profile_bindings_def uncaught_def)

section \<open>Properties of the users router\<close>








text \<open>
  A validated body in which name, email or password is not a string runs the \<open>try\<close>
  block as the libraries decide.
\<close>

lemma register_nonstring_body:
  assumes "all_strings (r_name b) (r_email b) (r_password b) = None"
    and "register_validation J L b = []"
  shows "register_handler J L salt new_id us b =
           catching (catch_server_error users_bindings ''error'' ''error'') (register_nonstring L us b)"
  using assms by (simp add: register_handler_def register_try_def)

end
